theory Spec2Isabelle
  imports Main
begin

section \<open>The root command of crunchy-cli (cli/root.go)\<close>

text \<open>
  The file under verification wires the root command: four global flags, five
  subcommands, a persistent pre-run hook that configures the shared logger and HTTP
  client, and \<open>Execute\<close>, which runs the command tree and turns its outcome into a
  process exit. Package-level variables become fields of one record that every
  function takes and returns; the calls made on the logger and on the client factory
  are appended to a trace, in program order.
\<close>

subsection \<open>Go values used by the file\<close>

text \<open>A Go \<open>error\<close> is observed here only through its \<open>Error()\<close> text.\<close>

datatype go_error = GoError (Error: string)

text \<open>\<open>context.Canceled.Error()\<close> of the Go standard library.\<close>

definition context_Canceled :: go_error where
  "context_Canceled = GoError ''context canceled''"

text \<open>
  \<open>strings.HasSuffix(s, suffix)\<close> of the Go standard library:
  \<^verbatim>\<open>len(s) >= len(suffix) && s[len(s)-len(suffix):] == suffix\<close>.
\<close>

definition HasSuffix :: "string \<Rightarrow> string \<Rightarrow> bool" where
  "HasSuffix s suffix =
     (length suffix \<le> length s \<and> drop (length s - length suffix) s = suffix)"

text \<open>The verb \<open>%d\<close> of \<open>fmt\<close> on a length: decimal digits, most significant first.\<close>

definition digit :: "nat \<Rightarrow> char" where
  "digit d = char_of (48 + d)"

fun Itoa :: "nat \<Rightarrow> string" where
  "Itoa n = (if n < 10 then [digit n] else Itoa (n div 10) @ [digit (n mod 10)])"

declare Itoa.simps [simp del]

subsection \<open>Logger and HTTP client (packages commands and utils)\<close>

datatype level = DebugLevel | InfoLevel | ErrLevel

record logger =
  debugEnabled :: bool
  infoEnabled :: bool
  errEnabled :: bool
  devView :: bool

record client =
  clientProxy :: "string option"
  clientUserAgent :: string

text \<open>
  What the file takes from outside itself: the version string of package utils, how
  the logger constructor decides developer mode, which proxy strings parse as a proxy
  URL and the error reported for one that does not, and how \<open>%v\<close> renders a panic
  payload of type \<open>'p\<close>.
\<close>

record 'p externals =
  utils_Version :: string
  devViewOf :: "bool \<Rightarrow> bool \<Rightarrow> bool \<Rightarrow> bool"
  validProxy :: "string \<Rightarrow> bool"
  proxyError :: "string \<Rightarrow> go_error"
  fmt_v :: "'p \<Rightarrow> string"

text \<open>
  Modelled from the spec: \<open>commands.NewLogger\<close> is not among the sources. The spec
  gives \<open>NewLogger(debugEnabled, infoEnabled, errorEnabled) \<rightarrow> Logger\<close> with the three
  enabled levels as attributes, and a developer-mode attribute read by \<open>IsDev()\<close>;
  how developer mode is chosen is left to \<open>devViewOf\<close>.
\<close>

definition NewLogger :: "'p externals \<Rightarrow> bool \<Rightarrow> bool \<Rightarrow> bool \<Rightarrow> logger" where
  "NewLogger ext d i e =
     \<lparr>debugEnabled = d, infoEnabled = i, errEnabled = e, devView = devViewOf ext d i e\<rparr>"

definition IsDev :: "logger \<Rightarrow> bool" where
  "IsDev l = devView l"

text \<open>
  Modelled from the spec: a logger holds the enabled levels and emits leveled
  messages; a message of a level that is not enabled is not written.
\<close>

fun enabled :: "logger \<Rightarrow> level \<Rightarrow> bool" where
  "enabled l DebugLevel = debugEnabled l"
| "enabled l InfoLevel = infoEnabled l"
| "enabled l ErrLevel = errEnabled l"

text \<open>
  Modelled from the spec: \<open>utils.CreateOrDefaultClient\<close> is not among the sources.
  It fails with a configuration error when the proxy string is non-empty but not a
  valid proxy URL; on an empty proxy it returns a default client; the client carries
  the given user agent.
\<close>

definition CreateOrDefaultClient :: "'p externals \<Rightarrow> string \<Rightarrow> string \<Rightarrow> go_error + client" where
  "CreateOrDefaultClient ext proxy useragent =
     (if proxy = [] then Inr \<lparr>clientProxy = None, clientUserAgent = useragent\<rparr>
      else if validProxy ext proxy then Inr \<lparr>clientProxy = Some proxy, clientUserAgent = useragent\<rparr>
      else Inl (proxyError ext proxy))"

subsection \<open>Package state and trace\<close>

datatype event =
    Logged logger level string
  | ClientRequested string string
  | CobraError string
  | CobraUsage
  | BodyStarted string

text \<open>
  \<open>Logged l lv m\<close>: a call of the method for level \<open>lv\<close> on the logger \<open>l\<close> with the
  rendered message \<open>m\<close>. \<open>ClientRequested p u\<close>: a call of the client factory with
  proxy \<open>p\<close> and user agent \<open>u\<close>. \<open>CobraError\<close> and \<open>CobraUsage\<close>: the command library
  printing an error or the usage text by itself. \<open>BodyStarted n\<close>: the command
  library calling the run function of the subcommand named \<open>n\<close>.
\<close>

fun written :: "event \<Rightarrow> bool" where
  "written (Logged l lv m) = enabled l lv"
| "written _ = True"

record world =
  quietFlag :: bool
  verboseFlag :: bool
  proxyFlag :: string
  useragentFlag :: string
  Log :: logger
  Client :: "client option"
  HiddenDefaultCmd :: bool
  subcommands :: "string list"
  trace :: "event list"

definition emit :: "event \<Rightarrow> world \<Rightarrow> world" where
  "emit ev w = w\<lparr>trace := trace w @ [ev]\<rparr>"

definition Log_Debug :: "string \<Rightarrow> world \<Rightarrow> world" where
  "Log_Debug m w = emit (Logged (Log w) DebugLevel m) w"

definition Log_Err :: "string \<Rightarrow> world \<Rightarrow> world" where
  "Log_Err m w = emit (Logged (Log w) ErrLevel m) w"

subsection \<open>The pre-run hook, the root command and init\<close>

text \<open>
  \<^verbatim>\<open>
  PersistentPreRunE: func(cmd *cobra.Command, args []string) (err error) {
      if verboseFlag { utils.Log = commands.NewLogger(true, true, true)
      } else if quietFlag { utils.Log = commands.NewLogger(false, false, false) }
      utils.Log.Debug("Executing `%s` command with %d arg(s)", cmd.Name(), len(args))
      utils.Client, err = utils.CreateOrDefaultClient(proxyFlag, useragentFlag)
      return
  }
  \<close>
  The assignment stores the factory's first result in \<open>utils.Client\<close> also when the
  second is an error; that first result is then nil.
\<close>

definition RootCmd_PersistentPreRunE ::
  "'p externals \<Rightarrow> string \<Rightarrow> string list \<Rightarrow> world \<Rightarrow> go_error option \<times> world" where
  "RootCmd_PersistentPreRunE ext name args w =
     (let w1 = (if verboseFlag w then w\<lparr>Log := NewLogger ext True True True\<rparr>
                else if quietFlag w then w\<lparr>Log := NewLogger ext False False False\<rparr>
                else w);
          w2 = Log_Debug (''Executing `'' @ name @ ''` command with ''
                            @ Itoa (length args) @ '' arg(s)'') w1;
          w3 = emit (ClientRequested (proxyFlag w2) (useragentFlag w2)) w2
      in case CreateOrDefaultClient ext (proxyFlag w2) (useragentFlag w2) of
           Inl err \<Rightarrow> (Some err, w3\<lparr>Client := None\<rparr>)
         | Inr c \<Rightarrow> (None, w3\<lparr>Client := Some c\<rparr>))"

record command =
  Use :: string
  Version :: string
  Short :: string
  SilenceErrors :: bool
  SilenceUsage :: bool
  PersistentPreRunE :: "string \<Rightarrow> string list \<Rightarrow> world \<Rightarrow> go_error option \<times> world"

definition RootCmd :: "'p externals \<Rightarrow> command" where
  "RootCmd ext =
     \<lparr>Use = ''crunchy-cli'',
      Version = utils_Version ext,
      Short = ''Download crunchyroll videos with ease. See the wiki for details about the cli and library: https://github.com/crunchy-labs/crunchy-cli/wiki'',
      SilenceErrors = True,
      SilenceUsage = True,
      PersistentPreRunE = RootCmd_PersistentPreRunE ext\<rparr>"

text \<open>
  \<open>init\<close> registers the flags, which stores each default in its variable, adds the
  five subcommands and installs the default logger.
\<close>

definition init :: "'p externals \<Rightarrow> world" where
  "init ext =
     \<lparr>quietFlag = False,
      verboseFlag = False,
      proxyFlag = [],
      useragentFlag = ''crunchy-cli/'' @ utils_Version ext,
      Log = NewLogger ext False True True,
      Client = None,
      HiddenDefaultCmd = False,
      subcommands = [''archive'', ''download'', ''info'', ''login'', ''update''],
      trace = []\<rparr>"

subsection \<open>Execute\<close>

text \<open>
  What \<open>RootCmd.Execute()\<close> can do to its caller: return nil or an error, or panic.
  \<open>Panicked r\<close> carries the value that \<open>recover()\<close> returns in the deferred function:
  \<open>Some v\<close> for a value \<open>v\<close> that is not nil, \<open>None\<close> for nil. The recovered value is
  nil when \<open>panic\<close> was called with nil in a module that declares a Go version before
  1.21; from 1.21 on such a call panics with a run-time error value instead.
\<close>

datatype 'p outcome = Returned "go_error option" | Panicked "'p option"

text \<open>
  \<open>Execute\<close> ends in \<open>os.Exit(1)\<close> or returns to \<open>main\<close>, whose return ends the
  process with code 0.
\<close>

datatype ending = Exit int | Return


text \<open>
  \<^verbatim>\<open>
  func Execute() {
      RootCmd.CompletionOptions.HiddenDefaultCmd = true
      defer func() {
          if r := recover(); r != nil {
              if utils.Log.IsDev() { utils.Log.Err("%v: %s", r, debug.Stack())
              } else { utils.Log.Err("Unexpected error: %v", r) }
              os.Exit(1)
          }
      }()
      if err := RootCmd.Execute(); err != nil {
          if !strings.HasSuffix(err.Error(), context.Canceled.Error()) {
              utils.Log.Err("An error occurred: %v", err)
          }
          os.Exit(1)
      }
  }
  \<close>
  The run of the command tree is the parameter \<open>run\<close>; \<open>stack\<close> is what
  \<open>debug.Stack()\<close> returns inside the deferred function. A call of \<open>recover()\<close>
  during a panic stops the panic whatever it returns: when the recovered value is nil
  the deferred function does nothing more and \<open>Execute\<close> returns to its caller. When
  there is no panic, \<open>recover()\<close> returns nil and the deferred function does nothing;
  \<open>os.Exit\<close> runs no deferred function.
\<close>

definition Execute ::
  "'p externals \<Rightarrow> string \<Rightarrow> (world \<Rightarrow> 'p outcome \<times> world) \<Rightarrow> world \<Rightarrow> ending \<times> world" where
  "Execute ext stack run w0 =
     (case run (w0\<lparr>HiddenDefaultCmd := True\<rparr>) of
        (Panicked r, w) \<Rightarrow>
          (case r of
             Some v \<Rightarrow>
               (Exit 1,
                if IsDev (Log w) then Log_Err (fmt_v ext v @ '': '' @ stack) w
                else Log_Err (''Unexpected error: '' @ fmt_v ext v) w)
           | None \<Rightarrow> (Return, w))
      | (Returned (Some err), w) \<Rightarrow>
          (Exit 1,
           if \<not> HasSuffix (Error err) (Error context_Canceled)
           then Log_Err (''An error occurred: '' @ Error err) w
           else w)
      | (Returned None, w) \<Rightarrow> (Return, w))"

subsection \<open>The command library's run of the tree\<close>

text \<open>
  \<open>RootCmd.Execute()\<close> belongs to the cobra library. Its contract, for a root
  command whose subcommands inherit the root's persistent pre-run hook, on the three
  kinds of command line that end in an error before a subcommand's body and on a
  dispatched subcommand:
  \<^item> the arguments name no subcommand: the lookup's error is returned, and printed by
    the library unless \<open>SilenceErrors\<close> is set;
  \<^item> flag parsing fails: the flags parsed so far stay stored in their variables, the
    error is returned, no hook runs;
  \<^item> otherwise the flags are stored, the hook runs with the subcommand's name and its
    arguments without flags, and, when the hook returns nil, the subcommand's run
    function is called.
  An error returned after the lookup is printed by the library unless \<open>SilenceErrors\<close>
  is set, and followed by the usage text unless \<open>SilenceUsage\<close> is set. Command lines
  the library answers by itself (help, version, completion) are not modelled.
\<close>

datatype flag = Quiet bool | Verbose bool | Proxy string | Useragent string

fun set_flag :: "flag \<Rightarrow> world \<Rightarrow> world" where
  "set_flag (Quiet b) w = w\<lparr>quietFlag := b\<rparr>"
| "set_flag (Verbose b) w = w\<lparr>verboseFlag := b\<rparr>"
| "set_flag (Proxy p) w = w\<lparr>proxyFlag := p\<rparr>"
| "set_flag (Useragent u) w = w\<lparr>useragentFlag := u\<rparr>"

fun parse_flags :: "flag list \<Rightarrow> world \<Rightarrow> world" where
  "parse_flags [] w = w"
| "parse_flags (f # fs) w = parse_flags fs (set_flag f w)"

fun is_Useragent :: "flag \<Rightarrow> bool" where
  "is_Useragent (Useragent u) = True"
| "is_Useragent _ = False"

record 'p subcommand =
  Name :: string
  RunE :: "string list \<Rightarrow> world \<Rightarrow> 'p outcome \<times> world"

datatype 'p cmdline =
    UnknownCommand go_error
  | FlagError "flag list" go_error
  | Dispatch "flag list" "'p subcommand" "string list"

definition cobra_lookup_failed :: "command \<Rightarrow> go_error \<Rightarrow> world \<Rightarrow> world" where
  "cobra_lookup_failed c err w =
     (if \<not> SilenceErrors c then emit (CobraError (Error err)) w else w)"

definition cobra_failed :: "command \<Rightarrow> go_error \<Rightarrow> world \<Rightarrow> world" where
  "cobra_failed c err w =
     (let w1 = (if \<not> SilenceErrors c then emit (CobraError (Error err)) w else w)
      in if \<not> SilenceUsage c then emit CobraUsage w1 else w1)"

definition cobra_Execute :: "command \<Rightarrow> 'p cmdline \<Rightarrow> world \<Rightarrow> 'p outcome \<times> world" where
  "cobra_Execute c cl w =
     (case cl of
        UnknownCommand err \<Rightarrow> (Returned (Some err), cobra_lookup_failed c err w)
      | FlagError fs err \<Rightarrow> (Returned (Some err), cobra_failed c err (parse_flags fs w))
      | Dispatch fs sub args \<Rightarrow>
          (case PersistentPreRunE c (Name sub) args (parse_flags fs w) of
             (Some err, w1) \<Rightarrow> (Returned (Some err), cobra_failed c err w1)
           | (None, w1) \<Rightarrow>
               (case RunE sub args (emit (BodyStarted (Name sub)) w1) of
                  (Returned (Some err), w2) \<Rightarrow> (Returned (Some err), cobra_failed c err w2)
                | (Returned None, w2) \<Rightarrow> (Returned None, w2)
                | (Panicked r, w2) \<Rightarrow> (Panicked r, w2))))"

text \<open>The whole program: \<open>init\<close>, then \<open>Execute\<close> on the command line.\<close>

definition main :: "'p externals \<Rightarrow> string \<Rightarrow> 'p cmdline \<Rightarrow> ending \<times> world" where
  "main ext stack cl = Execute ext stack (cobra_Execute (RootCmd ext) cl) (init ext)"

text \<open>Two runs used to evaluate \<open>Execute\<close> on concrete inputs.\<close>

definition run_returns :: "go_error option \<Rightarrow> world \<Rightarrow> 'p outcome \<times> world" where
  "run_returns r w = (Returned r, w)"


definition ext0 :: "string externals" where
  "ext0 =
     \<lparr>utils_Version = ''3.0.0'',
      devViewOf = (\<lambda>d i e. d),
      validProxy = (\<lambda>p. take 7 p = ''http://''),
      proxyError = (\<lambda>p. GoError (''invalid proxy: '' @ p)),
      fmt_v = (\<lambda>s. s)\<rparr>"

definition sub_ok :: "string subcommand" where
  "sub_ok = \<lparr>Name = ''download'', RunE = (\<lambda>args. run_returns None)\<rparr>"

text \<open>Concrete errors and states on which the properties below are evaluated.\<close>

definition err_wrapped :: go_error where
  "err_wrapped = GoError ''download: context canceled''"

definition err_plain :: go_error where
  "err_plain = GoError ''no episodes found''"

definition err_archive :: go_error where
  "err_archive = GoError ''archive: context canceled''"


definition quiet_world :: world where
  "quiet_world = parse_flags [Quiet True] (init ext0)"

definition verbose_world :: world where
  "verbose_world = parse_flags [Verbose True, Quiet True] (init ext0)"

section \<open>Properties\<close>

subsection \<open>Auxiliary facts\<close>

lemma HasSuffix_iff: "HasSuffix s t \<longleftrightarrow> (\<exists>p. s = p @ t)"
proof
  assume "HasSuffix s t"
  then have "s = take (length s - length t) s @ t"
    by (metis HasSuffix_def append_take_drop_id)
  then show "\<exists>p. s = p @ t" ..
next
  assume "\<exists>p. s = p @ t"
  then show "HasSuffix s t"
    by (auto simp: HasSuffix_def)
qed

lemma Log_Err_neq: "Log_Err m w \<noteq> w"
proof
  assume "Log_Err m w = w"
  then have "trace (Log_Err m w) = trace w" by simp
  then show False by (simp add: Log_Err_def emit_def)
qed

lemma set_flag_Log: "Log (set_flag f w) = Log w"
  by (cases f) simp_all

lemma set_flag_trace: "trace (set_flag f w) = trace w"
  by (cases f) simp_all

lemma set_flag_Hidden: "set_flag f (w\<lparr>HiddenDefaultCmd := b\<rparr>) = (set_flag f w)\<lparr>HiddenDefaultCmd := b\<rparr>"
  by (cases f) simp_all

lemma parse_flags_Log [simp]: "Log (parse_flags fs w) = Log w"
  by (induction fs arbitrary: w) (simp_all add: set_flag_Log)

lemma parse_flags_trace [simp]: "trace (parse_flags fs w) = trace w"
  by (induction fs arbitrary: w) (simp_all add: set_flag_trace)

lemma parse_flags_Hidden:
  "parse_flags fs (w\<lparr>HiddenDefaultCmd := b\<rparr>) = (parse_flags fs w)\<lparr>HiddenDefaultCmd := b\<rparr>"
  by (induction fs arbitrary: w) (simp_all add: set_flag_Hidden)

lemma parse_flags_useragent:
  "\<forall>f\<in>set fs. \<not> is_Useragent f \<Longrightarrow> useragentFlag (parse_flags fs w) = useragentFlag w"
proof (induction fs arbitrary: w)
  case Nil
  show ?case by simp
next
  case (Cons f fs)
  then have "\<not> is_Useragent f" and rest: "\<forall>g\<in>set fs. \<not> is_Useragent g" by simp_all
  then have "useragentFlag (set_flag f w) = useragentFlag w" by (cases f) simp_all
  with Cons.IH [OF rest] show ?case by simp
qed

lemma hook_Hidden:
  "RootCmd_PersistentPreRunE ext name args (w\<lparr>HiddenDefaultCmd := b\<rparr>) =
     (fst (RootCmd_PersistentPreRunE ext name args w),
      (snd (RootCmd_PersistentPreRunE ext name args w))\<lparr>HiddenDefaultCmd := b\<rparr>)"
  by (simp add: RootCmd_PersistentPreRunE_def Let_def Log_Debug_def emit_def split: sum.splits)

lemma not_suffix_plain: "\<not> (\<exists>p. Error err_plain = p @ Error context_Canceled)"
proof -
  have "\<not> HasSuffix (Error err_plain) (Error context_Canceled)"
    by (simp add: HasSuffix_def err_plain_def context_Canceled_def)
  then show ?thesis by (simp add: HasSuffix_iff)
qed

lemma Itoa_1: "Itoa 1 = ''1''"
  by code_simp

lemma Itoa_2: "Itoa 2 = ''2''"
  by code_simp

lemma Itoa_Suc1: "Itoa (Suc 0) = ''1''"
  using Itoa_1 by simp

lemma Itoa_Suc2: "Itoa (Suc (Suc 0)) = ''2''"
  using Itoa_2 by (simp add: numeral_2_eq_2)

lemma ext0_Version: "utils_Version ext0 = ''3.0.0''"
  by (simp add: ext0_def)

subsection \<open>Claims\<close>

text \<open>
  C1: when the run of the command tree returns an error whose message ends with the
  text of \<open>context.Canceled\<close>, \<open>Execute\<close> exits with code 1 and leaves the state,
  and so the trace, as the run left it: no error line is logged.
\<close>

theorem cancellation_exits_without_error_line:
  assumes "run (s\<lparr>HiddenDefaultCmd := True\<rparr>) = (Returned (Some err), t)"
    and "\<exists>p. Error err = p @ Error context_Canceled"
  shows "Execute ext stack run s = (Exit 1, t)"
  using assms by (simp add: Execute_def HasSuffix_iff)

theorem cancellation_exits_without_error_line_witness:
  "Execute ext0 ''goroutine 1'' (run_returns (Some err_wrapped)) (init ext0) =
     (Exit 1, (init ext0)\<lparr>HiddenDefaultCmd := True\<rparr>)"
proof -
  have r: "run_returns (Some err_wrapped) ((init ext0)\<lparr>HiddenDefaultCmd := True\<rparr>) =
      ((Returned (Some err_wrapped) :: string outcome), (init ext0)\<lparr>HiddenDefaultCmd := True\<rparr>)"
    by (simp add: run_returns_def)
  have "Error err_wrapped = ''download: '' @ Error context_Canceled"
    by (simp add: err_wrapped_def context_Canceled_def)
  then have s: "\<exists>p. Error err_wrapped = p @ Error context_Canceled" ..
  show ?thesis
    by (rule cancellation_exits_without_error_line
        [where run = "run_returns (Some err_wrapped)" and s = "init ext0", OF r s])
qed

text \<open>
  C2: when the run of the command tree returns an error whose message does not end
  with the text of \<open>context.Canceled\<close>, \<open>Execute\<close> exits with code 1 after exactly one
  more call on the logger: at error level, with the message \<open>An error occurred: \<close>
  followed by the error's own message.
\<close>

theorem other_error_logged_once:
  assumes "run (s\<lparr>HiddenDefaultCmd := True\<rparr>) = (Returned (Some err), t)"
    and "\<not> (\<exists>p. Error err = p @ Error context_Canceled)"
  shows "Execute ext stack run s =
    (Exit 1, t\<lparr>trace := trace t @ [Logged (Log t) ErrLevel (''An error occurred: '' @ Error err)]\<rparr>)"
  using assms by (simp add: Execute_def HasSuffix_iff Log_Err_def emit_def)

theorem other_error_logged_once_witness:
  "Execute ext0 ''goroutine 1'' (run_returns (Some err_plain)) (init ext0) =
     (Exit 1, (init ext0)\<lparr>HiddenDefaultCmd := True,
        trace := [Logged (NewLogger ext0 False True True) ErrLevel
                    ''An error occurred: no episodes found'']\<rparr>)"
proof -
  have r: "run_returns (Some err_plain) ((init ext0)\<lparr>HiddenDefaultCmd := True\<rparr>) =
      ((Returned (Some err_plain) :: string outcome), (init ext0)\<lparr>HiddenDefaultCmd := True\<rparr>)"
    by (simp add: run_returns_def)
  show ?thesis
    using other_error_logged_once
      [where run = "run_returns (Some err_plain)" and s = "init ext0" and ext = ext0
         and stack = "''goroutine 1''", OF r not_suffix_plain]
    by (simp add: init_def err_plain_def)
qed




text \<open>
  C4: starting from \<open>init\<close> and any parsed flags, the logger in effect after the hook
  has all three levels enabled when the verbose flag is set, whatever the quiet flag;
  all three disabled when only the quiet flag is set; and the levels of \<open>init\<close>'s
  logger (info and error, not debug) when neither is set.
\<close>

theorem hook_selects_logger:
  "map (enabled (Log (snd (RootCmd_PersistentPreRunE ext name args (parse_flags fs (init ext))))))
       [DebugLevel, InfoLevel, ErrLevel] =
     (if verboseFlag (parse_flags fs (init ext)) then [True, True, True]
      else if quietFlag (parse_flags fs (init ext)) then [False, False, False]
      else [False, True, True])"
  by (simp add: RootCmd_PersistentPreRunE_def Let_def Log_Debug_def emit_def NewLogger_def
      init_def split: sum.splits)

theorem hook_selects_logger_witness:
  "map (enabled (Log (snd (RootCmd_PersistentPreRunE ext0 ''download'' [''a'']
          (parse_flags [Verbose True, Quiet True] (init ext0))))))
       [DebugLevel, InfoLevel, ErrLevel] = [True, True, True] \<and>
   map (enabled (Log (snd (RootCmd_PersistentPreRunE ext0 ''download'' [''a'']
          (parse_flags [Quiet True] (init ext0))))))
       [DebugLevel, InfoLevel, ErrLevel] = [False, False, False] \<and>
   map (enabled (Log (snd (RootCmd_PersistentPreRunE ext0 ''download'' [''a'']
          (parse_flags [] (init ext0))))))
       [DebugLevel, InfoLevel, ErrLevel] = [False, True, True]"
  using hook_selects_logger [of ext0 "''download''" "[''a'']" "[Verbose True, Quiet True]"]
    hook_selects_logger [of ext0 "''download''" "[''a'']" "[Quiet True]"]
    hook_selects_logger [of ext0 "''download''" "[''a'']" "[]"]
  by (simp add: init_def)




text \<open>
  C6: when the client factory fails on the proxy and user agent set by the flags, the
  hook returns the factory's error, and the command library returns that error with
  the state the hook left: the subcommand's run function is not called.
\<close>

theorem client_failure_is_startup_failure:
  assumes "CreateOrDefaultClient ext (proxyFlag (parse_flags fs w)) (useragentFlag (parse_flags fs w)) = Inl err"
  shows "fst (RootCmd_PersistentPreRunE ext (Name sub) args (parse_flags fs w)) = Some err \<and>
         cobra_Execute (RootCmd ext) (Dispatch fs sub args) w =
           (Returned (Some err), snd (RootCmd_PersistentPreRunE ext (Name sub) args (parse_flags fs w)))"
  using assms
  by (simp add: cobra_Execute_def RootCmd_def RootCmd_PersistentPreRunE_def Let_def
      Log_Debug_def emit_def cobra_failed_def)

theorem client_failure_is_startup_failure_witness:
  "fst (RootCmd_PersistentPreRunE ext0 ''download'' [''a'']
          (parse_flags [Proxy ''socks''] (init ext0))) = Some (GoError ''invalid proxy: socks'') \<and>
   cobra_Execute (RootCmd ext0) (Dispatch [Proxy ''socks''] sub_ok [''a'']) (init ext0) =
     (Returned (Some (GoError ''invalid proxy: socks'')),
      snd (RootCmd_PersistentPreRunE ext0 ''download'' [''a'']
             (parse_flags [Proxy ''socks''] (init ext0))))"
proof -
  have f: "CreateOrDefaultClient ext0 (proxyFlag (parse_flags [Proxy ''socks''] (init ext0)))
             (useragentFlag (parse_flags [Proxy ''socks''] (init ext0))) =
           Inl (GoError ''invalid proxy: socks'')"
    by (simp add: CreateOrDefaultClient_def ext0_def)
  show ?thesis
    using client_failure_is_startup_failure [OF f, of sub_ok "[''a'']"]
    by (simp add: sub_ok_def)
qed

theorem cancellation_exact_text_counterexample:
  "Error err_archive \<noteq> Error context_Canceled \<and>
   trace (snd (Execute ext0 ''goroutine 1'' (run_returns (Some err_archive)) (init ext0))) = []"
  by (simp add: Execute_def run_returns_def HasSuffix_def err_archive_def context_Canceled_def
      init_def)

text \<open>
  C7: (as amended) an error returned by the run of the command tree is treated as a
  cancellation, that is \<open>Execute\<close> leaves the state as the run left it, if and only if
  its message ends with the text of \<open>context.Canceled\<close>; a longer message with that
  ending counts. The theorem before it evaluates \<open>Execute\<close> on such a longer message:
  the message is not the cancellation text, and nothing is logged.
\<close>

theorem cancellation_by_suffix:
  assumes "run (s\<lparr>HiddenDefaultCmd := True\<rparr>) = (Returned (Some err), t)"
  shows "(snd (Execute ext stack run s) = t) \<longleftrightarrow> (\<exists>p. Error err = p @ Error context_Canceled)"
  using assms Log_Err_neq [of "''An error occurred: '' @ Error err" t]
  by (simp add: Execute_def HasSuffix_iff)

theorem cancellation_by_suffix_witness:
  "(snd (Execute ext0 ''goroutine 1'' (run_returns (Some err_archive)) (init ext0)) =
      (init ext0)\<lparr>HiddenDefaultCmd := True\<rparr>) \<and>
   (\<exists>p. Error err_archive = p @ Error context_Canceled)"
proof -
  have r: "run_returns (Some err_archive) ((init ext0)\<lparr>HiddenDefaultCmd := True\<rparr>) =
      ((Returned (Some err_archive) :: string outcome), (init ext0)\<lparr>HiddenDefaultCmd := True\<rparr>)"
    by (simp add: run_returns_def)
  have "Error err_archive = ''archive: '' @ Error context_Canceled"
    by (simp add: err_archive_def context_Canceled_def)
  then have s: "\<exists>p. Error err_archive = p @ Error context_Canceled" ..
  from cancellation_by_suffix
      [where run = "run_returns (Some err_archive)" and s = "init ext0" and ext = ext0
         and stack = "''goroutine 1''", OF r] s
  show ?thesis by simp
qed

text \<open>
  C8: when no parsed flag sets the user agent, the hook calls the client factory
  with the proxy flag and with \<open>crunchy-cli/\<close> followed by the version string: the
  hook's error is the error of that call, \<open>utils.Client\<close> is the client that call
  returns (nil on an error), a client so stored carries that user agent, and the call
  is the last event of the trace.
\<close>

theorem default_useragent:
  assumes "\<forall>f\<in>set fs. \<not> is_Useragent f"
  shows "fst (RootCmd_PersistentPreRunE ext name args (parse_flags fs (init ext))) =
           (case CreateOrDefaultClient ext (proxyFlag (parse_flags fs (init ext)))
                   (''crunchy-cli/'' @ utils_Version ext) of
              Inl err \<Rightarrow> Some err | Inr c \<Rightarrow> None) \<and>
         Client (snd (RootCmd_PersistentPreRunE ext name args (parse_flags fs (init ext)))) =
           (case CreateOrDefaultClient ext (proxyFlag (parse_flags fs (init ext)))
                   (''crunchy-cli/'' @ utils_Version ext) of
              Inl err \<Rightarrow> None | Inr c \<Rightarrow> Some c) \<and>
         (\<forall>c. Client (snd (RootCmd_PersistentPreRunE ext name args (parse_flags fs (init ext)))) =
                 Some c \<longrightarrow>
               clientUserAgent c = ''crunchy-cli/'' @ utils_Version ext) \<and>
         last (trace (snd (RootCmd_PersistentPreRunE ext name args (parse_flags fs (init ext))))) =
           ClientRequested (proxyFlag (parse_flags fs (init ext)))
             (''crunchy-cli/'' @ utils_Version ext)"
proof -
  have "useragentFlag (parse_flags fs (init ext)) = useragentFlag (init ext)"
    using assms by (rule parse_flags_useragent)
  then have ua: "useragentFlag (parse_flags fs (init ext)) = ''crunchy-cli/'' @ utils_Version ext"
    by (simp add: init_def)
  have carries: "clientUserAgent c = u" if "CreateOrDefaultClient ext p u = Inr c" for p u c
    using that by (auto simp: CreateOrDefaultClient_def split: if_splits)
  show ?thesis
    by (auto simp: RootCmd_PersistentPreRunE_def Let_def Log_Debug_def emit_def ua
        split: sum.splits dest: carries)
qed

theorem default_useragent_witness:
  "fst (RootCmd_PersistentPreRunE ext0 ''info'' []
          (parse_flags [Quiet True, Proxy ''http://localhost:8080''] (init ext0))) = None \<and>
   Client (snd (RootCmd_PersistentPreRunE ext0 ''info'' []
          (parse_flags [Quiet True, Proxy ''http://localhost:8080''] (init ext0)))) =
     Some \<lparr>clientProxy = Some ''http://localhost:8080'',
            clientUserAgent = ''crunchy-cli/3.0.0''\<rparr> \<and>
   last (trace (snd (RootCmd_PersistentPreRunE ext0 ''info'' []
           (parse_flags [Quiet True, Proxy ''http://localhost:8080''] (init ext0))))) =
     ClientRequested ''http://localhost:8080'' ''crunchy-cli/3.0.0''"
proof -
  have h: "\<forall>f\<in>set [Quiet True, Proxy ''http://localhost:8080'']. \<not> is_Useragent f"
    by simp
  have c: "CreateOrDefaultClient ext0 ''http://localhost:8080'' ''crunchy-cli/3.0.0'' =
      Inr \<lparr>clientProxy = Some ''http://localhost:8080'',
            clientUserAgent = ''crunchy-cli/3.0.0''\<rparr>"
    by (simp add: CreateOrDefaultClient_def ext0_def)
  show ?thesis
    using default_useragent [OF h, of ext0 "''info''" "[]"]
    by (simp add: ext0_Version c)
qed

text \<open>
  C9: the hook adds two events to the trace, in this order: the debug message, sent
  to the logger selected by the flags, and the call of the client factory. That logger
  is the one left in \<open>utils.Log\<close>. The debug message is written under verbose, not
  written under quiet alone, and follows the previous logger's debug level when
  neither flag is set.
\<close>

theorem logger_configured_before_debug_and_client:
  "(let lg = (if verboseFlag w then NewLogger ext True True True
              else if quietFlag w then NewLogger ext False False False
              else Log w);
        msg = ''Executing `'' @ name @ ''` command with '' @ Itoa (length args) @ '' arg(s)''
    in trace (snd (RootCmd_PersistentPreRunE ext name args w)) =
         trace w @ [Logged lg DebugLevel msg, ClientRequested (proxyFlag w) (useragentFlag w)] \<and>
       Log (snd (RootCmd_PersistentPreRunE ext name args w)) = lg \<and>
       written (Logged lg DebugLevel msg) =
         (if verboseFlag w then True else if quietFlag w then False else debugEnabled (Log w)))"
  by (simp add: RootCmd_PersistentPreRunE_def Let_def Log_Debug_def emit_def NewLogger_def
      split: sum.splits)

theorem logger_configured_before_debug_and_client_witness:
  "trace (snd (RootCmd_PersistentPreRunE ext0 ''login'' [''user'', ''pass''] quiet_world)) =
     [Logged (NewLogger ext0 False False False) DebugLevel
        ''Executing `login` command with 2 arg(s)'',
      ClientRequested [] ''crunchy-cli/3.0.0''] \<and>
   \<not> written (Logged (NewLogger ext0 False False False) DebugLevel
        ''Executing `login` command with 2 arg(s)'') \<and>
   trace (snd (RootCmd_PersistentPreRunE ext0 ''login'' [''user'', ''pass''] verbose_world)) =
     [Logged (NewLogger ext0 True True True) DebugLevel
        ''Executing `login` command with 2 arg(s)'',
      ClientRequested [] ''crunchy-cli/3.0.0''] \<and>
   written (Logged (NewLogger ext0 True True True) DebugLevel
        ''Executing `login` command with 2 arg(s)'')"
proof -
  have q: "quietFlag quiet_world" "\<not> verboseFlag quiet_world" "proxyFlag quiet_world = []"
    "useragentFlag quiet_world = ''crunchy-cli/3.0.0''" "trace quiet_world = []"
    by (simp_all add: quiet_world_def init_def ext0_Version)
  have v: "verboseFlag verbose_world" "proxyFlag verbose_world = []"
    "useragentFlag verbose_world = ''crunchy-cli/3.0.0''" "trace verbose_world = []"
    by (simp_all add: verbose_world_def init_def ext0_Version)
  note tq = logger_configured_before_debug_and_client
      [of quiet_world ext0 "''login''" "[''user'', ''pass'']", unfolded Let_def]
  note tv = logger_configured_before_debug_and_client
      [of verbose_world ext0 "''login''" "[''user'', ''pass'']", unfolded Let_def]
  have a: "trace (snd (RootCmd_PersistentPreRunE ext0 ''login'' [''user'', ''pass''] quiet_world)) =
     [Logged (NewLogger ext0 False False False) DebugLevel
        ''Executing `login` command with 2 arg(s)'',
      ClientRequested [] ''crunchy-cli/3.0.0'']"
    using tq by (simp add: q Itoa_Suc2)
  have b: "\<not> written (Logged (NewLogger ext0 False False False) DebugLevel
        ''Executing `login` command with 2 arg(s)'')"
    using tq by (simp add: q Itoa_Suc2)
  have c: "trace (snd (RootCmd_PersistentPreRunE ext0 ''login'' [''user'', ''pass''] verbose_world)) =
     [Logged (NewLogger ext0 True True True) DebugLevel
        ''Executing `login` command with 2 arg(s)'',
      ClientRequested [] ''crunchy-cli/3.0.0'']"
    using tv by (simp add: v Itoa_Suc2)
  have d: "written (Logged (NewLogger ext0 True True True) DebugLevel
        ''Executing `login` command with 2 arg(s)'')"
    using tv by (simp add: v Itoa_Suc2)
  from a b c d show ?thesis by blast
qed

text \<open>
  C10: an unknown subcommand, a flag-parsing error and a failing hook all end in exit
  code 1; the trace gains no printing by the command library, and one error-level
  line \<open>An error occurred: \<close> followed by the message unless the message ends with
  the text of \<open>context.Canceled\<close>.
\<close>

theorem startup_errors_reach_root_boundary:
  "main ext stack (UnknownCommand err) =
     (Exit 1, (init ext)\<lparr>HiddenDefaultCmd := True,
        trace := (if \<exists>p. Error err = p @ Error context_Canceled then []
                  else [Logged (NewLogger ext False True True) ErrLevel
                          (''An error occurred: '' @ Error err)])\<rparr>) \<and>
   main ext stack (FlagError fs err) =
     (Exit 1, (parse_flags fs (init ext))\<lparr>HiddenDefaultCmd := True,
        trace := (if \<exists>p. Error err = p @ Error context_Canceled then []
                  else [Logged (NewLogger ext False True True) ErrLevel
                          (''An error occurred: '' @ Error err)])\<rparr>) \<and>
   (fst (RootCmd_PersistentPreRunE ext (Name sub) args (parse_flags fs (init ext))) = Some err \<longrightarrow>
    main ext stack (Dispatch fs sub args) =
      (let w = snd (RootCmd_PersistentPreRunE ext (Name sub) args (parse_flags fs (init ext)))
       in (Exit 1, w\<lparr>HiddenDefaultCmd := True,
             trace := trace w @
               (if \<exists>p. Error err = p @ Error context_Canceled then []
                else [Logged (Log w) ErrLevel (''An error occurred: '' @ Error err)])\<rparr>)))"
proof (intro conjI impI)
  show "main ext stack (UnknownCommand err) =
     (Exit 1, (init ext)\<lparr>HiddenDefaultCmd := True,
        trace := (if \<exists>p. Error err = p @ Error context_Canceled then []
                  else [Logged (NewLogger ext False True True) ErrLevel
                          (''An error occurred: '' @ Error err)])\<rparr>)"
    by (simp add: main_def Execute_def cobra_Execute_def cobra_lookup_failed_def RootCmd_def
        HasSuffix_iff Log_Err_def emit_def init_def)
next
  have "trace (init ext) = []" and "Log (init ext) = NewLogger ext False True True"
    by (simp_all add: init_def)
  then show "main ext stack (FlagError fs err) =
     (Exit 1, (parse_flags fs (init ext))\<lparr>HiddenDefaultCmd := True,
        trace := (if \<exists>p. Error err = p @ Error context_Canceled then []
                  else [Logged (NewLogger ext False True True) ErrLevel
                          (''An error occurred: '' @ Error err)])\<rparr>)"
    by (simp add: main_def Execute_def cobra_Execute_def cobra_failed_def RootCmd_def
        HasSuffix_iff Log_Err_def emit_def parse_flags_Hidden)
next
  assume h: "fst (RootCmd_PersistentPreRunE ext (Name sub) args (parse_flags fs (init ext))) = Some err"
  show "main ext stack (Dispatch fs sub args) =
      (let w = snd (RootCmd_PersistentPreRunE ext (Name sub) args (parse_flags fs (init ext)))
       in (Exit 1, w\<lparr>HiddenDefaultCmd := True,
             trace := trace w @
               (if \<exists>p. Error err = p @ Error context_Canceled then []
                else [Logged (Log w) ErrLevel (''An error occurred: '' @ Error err)])\<rparr>))"
    using h
    by (simp add: main_def Execute_def cobra_Execute_def cobra_failed_def RootCmd_def
        HasSuffix_iff Log_Err_def emit_def parse_flags_Hidden hook_Hidden Let_def)
qed

theorem startup_errors_reach_root_boundary_witness:
  "main ext0 ''goroutine 1'' (UnknownCommand (GoError ''unknown command'')) =
     (Exit 1, (init ext0)\<lparr>HiddenDefaultCmd := True,
        trace := [Logged (NewLogger ext0 False True True) ErrLevel
                    ''An error occurred: unknown command'']\<rparr>) \<and>
   main ext0 ''goroutine 1'' (FlagError [Quiet True] (GoError ''unknown flag: --foo'')) =
     (Exit 1, (init ext0)\<lparr>quietFlag := True, HiddenDefaultCmd := True,
        trace := [Logged (NewLogger ext0 False True True) ErrLevel
                    ''An error occurred: unknown flag: --foo'']\<rparr>) \<and>
   trace (snd (main ext0 ''goroutine 1'' (Dispatch [Proxy ''socks''] sub_ok [''a'']))) =
     [Logged (NewLogger ext0 False True True) DebugLevel
        ''Executing `download` command with 1 arg(s)'',
      ClientRequested ''socks'' ''crunchy-cli/3.0.0'',
      Logged (NewLogger ext0 False True True) ErrLevel
        ''An error occurred: invalid proxy: socks'']"
proof (intro conjI)
  show "main ext0 ''goroutine 1'' (UnknownCommand (GoError ''unknown command'')) =
     (Exit 1, (init ext0)\<lparr>HiddenDefaultCmd := True,
        trace := [Logged (NewLogger ext0 False True True) ErrLevel
                    ''An error occurred: unknown command'']\<rparr>)"
    using startup_errors_reach_root_boundary
        [of ext0 "''goroutine 1''" "GoError ''unknown command''" "[]" sub_ok "[]"]
    by (simp add: HasSuffix_iff [symmetric] HasSuffix_def context_Canceled_def)
next
  show "main ext0 ''goroutine 1'' (FlagError [Quiet True] (GoError ''unknown flag: --foo'')) =
     (Exit 1, (init ext0)\<lparr>quietFlag := True, HiddenDefaultCmd := True,
        trace := [Logged (NewLogger ext0 False True True) ErrLevel
                    ''An error occurred: unknown flag: --foo'']\<rparr>)"
    using startup_errors_reach_root_boundary
        [of ext0 "''goroutine 1''" "GoError ''unknown flag: --foo''" "[Quiet True]" sub_ok "[]"]
    by (simp add: HasSuffix_iff [symmetric] HasSuffix_def context_Canceled_def)
next
  have f: "fst (RootCmd_PersistentPreRunE ext0 (Name sub_ok) [''a'']
                 (parse_flags [Proxy ''socks''] (init ext0))) =
           Some (GoError ''invalid proxy: socks'')"
    by (simp add: RootCmd_PersistentPreRunE_def Let_def Log_Debug_def emit_def
        CreateOrDefaultClient_def ext0_def)
  have t: "trace (snd (RootCmd_PersistentPreRunE ext0 (Name sub_ok) [''a'']
                 (parse_flags [Proxy ''socks''] (init ext0)))) =
     [Logged (NewLogger ext0 False True True) DebugLevel
        ''Executing `download` command with 1 arg(s)'',
      ClientRequested ''socks'' ''crunchy-cli/3.0.0'']"
    and l: "Log (snd (RootCmd_PersistentPreRunE ext0 (Name sub_ok) [''a'']
                 (parse_flags [Proxy ''socks''] (init ext0)))) = NewLogger ext0 False True True"
    by (simp_all add: RootCmd_PersistentPreRunE_def Let_def Log_Debug_def emit_def
        CreateOrDefaultClient_def init_def sub_ok_def Itoa_Suc1 ext0_Version)
  show "trace (snd (main ext0 ''goroutine 1'' (Dispatch [Proxy ''socks''] sub_ok [''a'']))) =
     [Logged (NewLogger ext0 False True True) DebugLevel
        ''Executing `download` command with 1 arg(s)'',
      ClientRequested ''socks'' ''crunchy-cli/3.0.0'',
      Logged (NewLogger ext0 False True True) ErrLevel
        ''An error occurred: invalid proxy: socks'']"
    using startup_errors_reach_root_boundary
        [of ext0 "''goroutine 1''" "GoError ''invalid proxy: socks''" "[Proxy ''socks'']"
           sub_ok "[''a'']"] f
    by (simp add: Let_def t l HasSuffix_iff [symmetric] HasSuffix_def context_Canceled_def
        del: parse_flags.simps)
qed

end
